theory Spec2Isabelle
  imports Complex_Main "HOL-Library.Char_ord" "HOL-Library.List_Lexorder"
begin

section \<open>The immunization notebook: values\<close>

text \<open>
  The program is the notebook \<^verbatim>\<open>notebooks/master_notebook.ipynb\<close> (Python 2, pandas).
  A pandas table is modelled by its index labels and its cells; the functions below follow
  the notebook's code cells in their order. Reading and tokenizing the CSV files is outside
  the model: each pipeline starts from the table that \<^verbatim>\<open>pd.read_csv\<close> returned.

  A cell is what pandas holds at one position: the missing value \<^verbatim>\<open>NaN\<close>, a float, an
  integer or a string. A float64 is modelled by the number it denotes (a rational, or one of
  the two infinities); rounding and the sign of zero are not modelled. An integer is a
  mathematical integer: the 64-bit storage of a pandas integer column is not modelled.
\<close>

datatype py_error = ValueError | AttributeError | TypeError | KeyError | IndexError

datatype cell = NaN | PosInf | NegInf | FloatV rat | IntV int | StrV string

subsection \<open>The two lambdas of the notebook\<close>

text \<open>\<^verbatim>\<open>x.replace(',', '')\<close>: every comma is removed.\<close>

definition replace_comma :: "string \<Rightarrow> string" where
  "replace_comma s = filter (\<lambda>c. c \<noteq> CHR '','') s"

text \<open>
  \<^verbatim>\<open>int(s)\<close> on a byte string: white space around the literal is skipped, one sign
  directly before the digits is accepted, then at least one decimal digit and nothing else;
  anything else raises \<^verbatim>\<open>ValueError\<close>. The result is a Python integer of any size.
\<close>

definition is_space :: "char \<Rightarrow> bool" where
  "is_space c = (c \<in> set [CHR '' '', CHR 0x09, CHR 0x0A, CHR 0x0B, CHR 0x0C, CHR 0x0D])"

definition is_digit :: "char \<Rightarrow> bool" where
  "is_digit c = (c \<in> set ''0123456789'')"

definition digit_val :: "char \<Rightarrow> int" where
  "digit_val c = of_char c - 48"

definition py_strip :: "string \<Rightarrow> string" where
  "py_strip s = rev (dropWhile is_space (rev (dropWhile is_space s)))"

definition digits_int :: "string \<Rightarrow> int" where
  "digits_int ds = foldl (\<lambda>a c. 10 * a + digit_val c) 0 ds"

definition unsigned_int :: "string \<Rightarrow> py_error + int" where
  "unsigned_int ds =
     (if ds \<noteq> [] \<and> list_all is_digit ds then Inr (digits_int ds) else Inl ValueError)"

definition py_int :: "string \<Rightarrow> py_error + int" where
  "py_int s =
     (case py_strip s of
        [] \<Rightarrow> Inl ValueError
      | c # r \<Rightarrow>
          if c = CHR ''-'' then map_sum id uminus (unsigned_int r)
          else if c = CHR ''+'' then unsigned_int r
          else unsigned_int (c # r))"

text \<open>
  \<^verbatim>\<open>lambda x: int(x.replace(',', ''))\<close>, the function given to \<^verbatim>\<open>applymap\<close>. Only a
  string has a \<^verbatim>\<open>replace\<close> method taking two strings: on a number the attribute lookup
  raises.
\<close>

fun to_int :: "cell \<Rightarrow> py_error + cell" where
  "to_int (StrV s) = map_sum id IntV (py_int (replace_comma s))"
| "to_int _ = Inl AttributeError"

text \<open>\<^verbatim>\<open>x[:-4]\<close> on a string: all but the last four characters.\<close>

definition trim4 :: "string \<Rightarrow> string" where
  "trim4 s = take (length s - 4) s"

text \<open>\<^verbatim>\<open>lambda x: x[:-4]\<close>, the function given to \<^verbatim>\<open>apply\<close>; a number cannot be sliced.\<close>

fun rcdt_of :: "cell \<Rightarrow> py_error + cell" where
  "rcdt_of (StrV s) = Inr (StrV (trim4 s))"
| "rcdt_of _ = Inl TypeError"

text \<open>
  The value of a sequence of decimal digits, by position: the digit at index \<open>i\<close> of
  \<open>n\<close> digits counts \<open>10 ^ (n - 1 - i)\<close> times. This is the reading of a base-10 numeral
  that the statements about coercion refer to.
\<close>

definition decimal :: "string \<Rightarrow> int" where
  "decimal ds = (\<Sum>i<length ds. digit_val (ds ! i) * 10 ^ (length ds - Suc i))"

section \<open>Tables\<close>

text \<open>
  A \<^verbatim>\<open>DataFrame\<close>: the column names, and the rows in their order, each with its index
  label. \<^verbatim>\<open>read_csv\<close> numbers the rows of the file from 0; a row shorter than the header
  reads as \<^verbatim>\<open>NaN\<close> in the missing positions, which \<open>cell_at\<close> reproduces.
\<close>

record frame =
  columns :: "string list"
  rows :: "(nat \<times> cell list) list"

definition read_csv :: "string list \<Rightarrow> cell list list \<Rightarrow> frame" where
  "read_csv header body = \<lparr>columns = header, rows = enumerate 0 body\<rparr>"

definition labels :: "frame \<Rightarrow> nat list" where
  "labels df = map fst (rows df)"

fun index_of :: "'a list \<Rightarrow> 'a \<Rightarrow> nat option" where
  "index_of [] x = None"
| "index_of (y # ys) x = (if x = y then Some 0 else map_option Suc (index_of ys x))"

definition cell_at :: "cell list \<Rightarrow> nat \<Rightarrow> cell" where
  "cell_at cs j = (if j < length cs then cs ! j else NaN)"

definition column_values :: "frame \<Rightarrow> nat \<Rightarrow> cell list" where
  "column_values df j = map (\<lambda>(l, cs). cell_at cs j) (rows df)"

text \<open>\<^verbatim>\<open>df[name]\<close> as a list of values; a name that is no column raises \<^verbatim>\<open>KeyError\<close>.\<close>

definition column :: "frame \<Rightarrow> string \<Rightarrow> py_error + cell list" where
  "column df name =
     (case index_of (columns df) name of
        None \<Rightarrow> Inl KeyError
      | Some j \<Rightarrow> Inr (column_values df j))"

subsection \<open>Exceptions\<close>

text \<open>
  A raised exception is the left injection. \<open>bind_err\<close> is the sequencing of two
  statements, \<open>sequence\<close> the evaluation of a function over a column, which stops at the
  first value that raises.
\<close>

definition bind_err :: "'e + 'a \<Rightarrow> ('a \<Rightarrow> 'e + 'b) \<Rightarrow> 'e + 'b" where
  "bind_err m f = (case m of Inl e \<Rightarrow> Inl e | Inr x \<Rightarrow> f x)"

fun sequence :: "('e + 'a) list \<Rightarrow> 'e + 'a list" where
  "sequence [] = Inr []"
| "sequence (Inl e # ms) = Inl e"
| "sequence (Inr x # ms) = map_sum id ((#) x) (sequence ms)"

subsection \<open>Selecting rows and columns\<close>

text \<open>
  \<^verbatim>\<open>df.ix[:, names]\<close>: the named columns in the order given; a name that is no column
  gives a column of \<^verbatim>\<open>NaN\<close> (the notebook meets this on the 09-10 file).
\<close>

definition field :: "frame \<Rightarrow> string \<Rightarrow> cell list \<Rightarrow> cell" where
  "field df name cs = (case index_of (columns df) name of None \<Rightarrow> NaN | Some j \<Rightarrow> cell_at cs j)"

definition ix_columns :: "string list \<Rightarrow> frame \<Rightarrow> frame" where
  "ix_columns names df =
     \<lparr>columns = names, rows = map (\<lambda>(l, cs). (l, map (\<lambda>n. field df n cs) names)) (rows df)\<rparr>"

text \<open>\<^verbatim>\<open>df[names]\<close>: the same selection, but a missing name raises \<^verbatim>\<open>KeyError\<close>.\<close>

definition getitem_columns :: "string list \<Rightarrow> frame \<Rightarrow> py_error + frame" where
  "getitem_columns names df =
     (if list_all (\<lambda>n. n \<in> set (columns df)) names then Inr (ix_columns names df)
      else Inl KeyError)"

text \<open>
  \<^verbatim>\<open>df.ix[start:, positions]\<close> on a table whose column names are strings and whose row
  labels are the integers from 0: the rows labelled \<open>start\<close> or more, the columns at the
  given positions; a position beyond the last column raises \<^verbatim>\<open>IndexError\<close>.
\<close>

definition ix_from :: "nat \<Rightarrow> nat list \<Rightarrow> frame \<Rightarrow> py_error + frame" where
  "ix_from start positions df =
     (if list_all (\<lambda>j. j < length (columns df)) positions
      then Inr \<lparr>columns = map (\<lambda>j. columns df ! j) positions,
                rows = map (\<lambda>(l, cs). (l, map (cell_at cs) positions))
                         (filter (\<lambda>(l, cs). start \<le> l) (rows df))\<rparr>
      else Inl IndexError)"

text \<open>\<^verbatim>\<open>df.dropna(inplace=True)\<close>: a row with \<^verbatim>\<open>NaN\<close> in any column is removed.\<close>

definition is_blank :: "cell list \<Rightarrow> bool" where
  "is_blank cs = (NaN \<in> set cs)"

definition dropna :: "frame \<Rightarrow> frame" where
  "dropna df = df\<lparr>rows := filter (\<lambda>(l, cs). \<not> is_blank cs) (rows df)\<rparr>"

text \<open>
  \<^verbatim>\<open>df.drop(label, axis=0)\<close>: the rows with that index label are removed; a label that
  no row carries raises \<^verbatim>\<open>ValueError\<close> (labels not contained in axis).
\<close>

definition drop_label :: "nat \<Rightarrow> frame \<Rightarrow> py_error + frame" where
  "drop_label l df =
     (if l \<in> set (labels df) then Inr (df\<lparr>rows := filter (\<lambda>(l', cs). l' \<noteq> l) (rows df)\<rparr>)
      else Inl ValueError)"

subsection \<open>Changing columns\<close>

definition put_column :: "nat \<Rightarrow> cell list \<Rightarrow> frame \<Rightarrow> frame" where
  "put_column j vs df = df\<lparr>rows := map (\<lambda>((l, cs), v). (l, cs[j := v])) (zip (rows df) vs)\<rparr>"

text \<open>\<^verbatim>\<open>df[name] = values\<close>: an existing column is overwritten, a new one is appended.\<close>

definition set_column :: "string \<Rightarrow> cell list \<Rightarrow> frame \<Rightarrow> frame" where
  "set_column name vs df =
     (case index_of (columns df) name of
        Some j \<Rightarrow> put_column j vs df
      | None \<Rightarrow> \<lparr>columns = columns df @ [name],
                 rows = map (\<lambda>((l, cs), v). (l, cs @ [v])) (zip (rows df) vs)\<rparr>)"

text \<open>\<^verbatim>\<open>df[name] = v\<close> with a scalar: the value in every row.\<close>

definition set_const :: "string \<Rightarrow> cell \<Rightarrow> frame \<Rightarrow> frame" where
  "set_const name v df = set_column name (replicate (length (rows df)) v) df"

text \<open>\<^verbatim>\<open>df.columns = names\<close>: a list of another length raises \<^verbatim>\<open>ValueError\<close>.\<close>

definition set_columns :: "string list \<Rightarrow> frame \<Rightarrow> py_error + frame" where
  "set_columns names df =
     (if length names = length (columns df) then Inr (df\<lparr>columns := names\<rparr>)
      else Inl ValueError)"

definition remove_nth :: "nat \<Rightarrow> 'a list \<Rightarrow> 'a list" where
  "remove_nth j xs = take j xs @ drop (Suc j) xs"

text \<open>\<^verbatim>\<open>df.drop(name, axis=1, inplace=True)\<close>; a name that is no column raises.\<close>

definition drop_column :: "string \<Rightarrow> frame \<Rightarrow> py_error + frame" where
  "drop_column name df =
     (case index_of (columns df) name of
        None \<Rightarrow> Inl ValueError
      | Some j \<Rightarrow> Inr \<lparr>columns = remove_nth j (columns df),
                       rows = map (\<lambda>(l, cs). (l, remove_nth j cs)) (rows df)\<rparr>)"

text \<open>\<^verbatim>\<open>df.insert(loc, name, v)\<close>: a new column at position \<open>loc\<close>.\<close>

definition insert_column :: "nat \<Rightarrow> string \<Rightarrow> cell \<Rightarrow> frame \<Rightarrow> py_error + frame" where
  "insert_column loc name v df =
     (if name \<in> set (columns df) then Inl ValueError
      else if length (columns df) < loc then Inl IndexError
      else Inr \<lparr>columns = take loc (columns df) @ [name] @ drop loc (columns df),
                rows = map (\<lambda>(l, cs). (l, take loc cs @ [v] @ drop loc cs)) (rows df)\<rparr>)"

text \<open>
  \<^verbatim>\<open>df[cols] = df[cols].applymap(f)\<close>: \<open>f\<close> on every cell of the named columns, one
  column after the other. The selection raises \<^verbatim>\<open>KeyError\<close> when a name is no column;
  an exception of \<open>f\<close> leaves the statement, and nothing is assigned.
\<close>

definition map_column :: "(cell \<Rightarrow> py_error + cell) \<Rightarrow> nat \<Rightarrow> frame \<Rightarrow> py_error + frame" where
  "map_column f j df =
     bind_err (sequence (map f (column_values df j))) (\<lambda>vs. Inr (put_column j vs df))"

fun map_columns :: "(cell \<Rightarrow> py_error + cell) \<Rightarrow> nat list \<Rightarrow> frame \<Rightarrow> py_error + frame" where
  "map_columns f [] df = Inr df"
| "map_columns f (j # js) df = bind_err (map_column f j df) (map_columns f js)"

definition applymap :: "(cell \<Rightarrow> py_error + cell) \<Rightarrow> string list \<Rightarrow> frame \<Rightarrow> py_error + frame" where
  "applymap f names df =
     (if list_all (\<lambda>n. n \<in> set (columns df)) names
      then map_columns f (List.map_filter (index_of (columns df)) names) df
      else Inl KeyError)"

text \<open>\<^verbatim>\<open>df[target] = df[source].apply(f)\<close>.\<close>

definition assign_apply ::
  "string \<Rightarrow> string \<Rightarrow> (cell \<Rightarrow> py_error + cell) \<Rightarrow> frame \<Rightarrow> py_error + frame" where
  "assign_apply target source f df =
     bind_err (column df source) (\<lambda>xs.
       bind_err (sequence (map f xs)) (\<lambda>vs. Inr (set_column target vs df)))"

subsection \<open>Concatenation\<close>

text \<open>
  \<^verbatim>\<open>pd.concat([a, b])\<close>: the rows of \<open>a\<close>, then the rows of \<open>b\<close>, with their labels.
  Columns are matched by name. When the two column lists are equal they are kept; otherwise
  the result has every name of either table, sorted, and a row has \<^verbatim>\<open>NaN\<close> in the columns
  its table lacks. No schema is required to agree. A column that then holds numbers, not all
  of them integers, becomes a float column (the type of a column is read off its cells).
\<close>

fun is_int :: "cell \<Rightarrow> bool" where
  "is_int (IntV i) = True"
| "is_int _ = False"

fun is_text :: "cell \<Rightarrow> bool" where
  "is_text (StrV s) = True"
| "is_text _ = False"

fun to_float :: "cell \<Rightarrow> cell" where
  "to_float (IntV i) = FloatV (of_int i)"
| "to_float c = c"

definition union_columns :: "string list \<Rightarrow> string list \<Rightarrow> string list" where
  "union_columns a b = (if a = b then a else sort (remdups (a @ b)))"

definition float_column :: "cell list \<Rightarrow> bool" where
  "float_column vs = (\<not> list_ex is_text vs \<and> \<not> list_all is_int vs)"

definition upcast_columns :: "frame \<Rightarrow> frame" where
  "upcast_columns df =
     (let fl = map (\<lambda>j. float_column (column_values df j)) [0..<length (columns df)]
      in df\<lparr>rows := map (\<lambda>(l, cs). (l, map (\<lambda>(f, c). if f then to_float c else c) (zip fl cs)))
                        (rows df)\<rparr>)"

definition pd_concat :: "frame \<Rightarrow> frame \<Rightarrow> frame" where
  "pd_concat a b =
     (let cols = union_columns (columns a) (columns b)
      in upcast_columns
           \<lparr>columns = cols, rows = rows (ix_columns cols a) @ rows (ix_columns cols b)\<rparr>)"

section \<open>The three extracts\<close>

text \<open>
  An exception in a cell of the notebook ends the pipeline: the statement that raised has
  assigned nothing, and the table it was to produce does not exist.
\<close>

subsection \<open>Years 04-05\<close>

definition columns_to_keep04 :: "string list" where
  "columns_to_keep04 = [''RCDT'', ''School'', ''Total Sch. Enroll.'', ''Polio Prot.'']"

text \<open>
  Selection of the four columns, \<^verbatim>\<open>dropna\<close>, and the coercion of the two count columns
  with \<^verbatim>\<open>int(x.replace(',', ''))\<close>. (The cell before the coercion, the same statement with
  \<^verbatim>\<open>int(x)\<close> alone, is the tutorial's demonstration of the failure on commas; it raised
  and changed nothing.)
\<close>

definition clean04 :: "frame \<Rightarrow> py_error + frame" where
  "clean04 df =
     applymap to_int [''Total Sch. Enroll.'', ''Polio Prot.'']
       (dropna (ix_columns columns_to_keep04 df))"

definition columns_we_want :: "string list" where
  "columns_we_want = [''rcdt'', ''enrollment'', ''protected'', ''year'']"

text \<open>Dropping \<^verbatim>\<open>School\<close>, adding the year, renaming the columns.\<close>

definition prepare04 :: "frame \<Rightarrow> py_error + frame" where
  "prepare04 df04 =
     bind_err (drop_column ''School'' df04) (\<lambda>d.
       set_columns columns_we_want (set_const ''year'' (IntV 2004) d))"

definition normalize04 :: "frame \<Rightarrow> py_error + frame" where
  "normalize04 df = bind_err (clean04 df) prepare04"

subsection \<open>Years 09-10\<close>

definition columns_to_keep09 :: "string list" where
  "columns_to_keep09 = [''RCDTS'', ''Enrollment'', ''PolioProt'']"

text \<open>Selection and \<^verbatim>\<open>dropna\<close>; the counts are left as read (``they're floats already'').\<close>

definition clean09 :: "frame \<Rightarrow> py_error + frame" where
  "clean09 df = map_sum id dropna (getitem_columns columns_to_keep09 df)"

definition master_columns :: "string list" where
  "master_columns = [''rcdts'', ''enrollment'', ''protected'', ''year'']"

definition with_year :: "int \<Rightarrow> frame \<Rightarrow> py_error + frame" where
  "with_year y df = set_columns master_columns (set_const ''Year'' (IntV y) df)"


subsection \<open>Years 14-15\<close>

text \<open>
  Rows from label 2 on, columns 0, 3 and 8; \<^verbatim>\<open>dropna\<close>; new column names; the coercion of
  the two count columns; and the row with index label 4876, which the notebook found to be
  no school, dropped by its label.
\<close>

definition clean14 :: "frame \<Rightarrow> py_error + frame" where
  "clean14 df =
     bind_err (ix_from 2 [0, 3, 8] df) (\<lambda>d.
     bind_err (set_columns [''RCDTS'', ''Enrolled'', ''Protected''] (dropna d)) (\<lambda>d.
     bind_err (applymap to_int [''Enrolled'', ''Protected''] d) (drop_label 4876)))"

definition normalize14 :: "frame \<Rightarrow> py_error + frame" where
  "normalize14 df = bind_err (clean14 df) (with_year 2014)"

subsection \<open>The master table\<close>

text \<open>
  The school part of the combined identifier is cut off: a column \<^verbatim>\<open>rcdt\<close> is inserted at
  position 1, filled with \<^verbatim>\<open>x[:-4]\<close> of \<^verbatim>\<open>rcdts\<close>, and \<^verbatim>\<open>rcdts\<close> is dropped.
\<close>

definition rcdts_to_rcdt :: "frame \<Rightarrow> py_error + frame" where
  "rcdts_to_rcdt df =
     bind_err (insert_column 1 ''rcdt'' (IntV 0) df) (\<lambda>d.
     bind_err (assign_apply ''rcdt'' ''rcdts'' rcdt_of d) (drop_column ''rcdts''))"

definition master :: "frame \<Rightarrow> frame \<Rightarrow> frame \<Rightarrow> py_error + frame" where
  "master raw04 raw09 raw14 =
     bind_err (clean04 raw04) (\<lambda>df04.
     bind_err (clean09 raw09) (\<lambda>df09.
     bind_err (clean14 raw14) (\<lambda>df14.
     bind_err (with_year 2014 df14) (\<lambda>df14.
     bind_err (with_year 2009 df09) (\<lambda>df09.
     bind_err (rcdts_to_rcdt (pd_concat df14 df09)) (\<lambda>df.
     bind_err (prepare04 df04) (\<lambda>df04.
       Inr (pd_concat df df04))))))))"

section \<open>The analysis\<close>

text \<open>
  \<^verbatim>\<open>df.groupby('year').aggregate({'enrollment':'sum', 'protected':'sum'})\<close> and then
  \<^verbatim>\<open>df_year['protected']/df_year['enrollment']\<close>.

  A group key is a value of the \<^verbatim>\<open>year\<close> column: a number (an integer and the float
  equal to it are one key) or a string; rows with \<^verbatim>\<open>NaN\<close> there belong to no group. The
  groups come sorted by key, numbers before strings as Python 2 orders them.
\<close>

datatype key = KNegInf | KNum rat | KPosInf | KStr string

fun key_rank :: "key \<Rightarrow> nat" where
  "key_rank KNegInf = 0"
| "key_rank (KNum q) = 1"
| "key_rank KPosInf = 2"
| "key_rank (KStr s) = 3"

instantiation key :: linorder
begin

definition less_eq_key :: "key \<Rightarrow> key \<Rightarrow> bool" where
  "less_eq_key a b =
     (case (a, b) of
        (KNum x, KNum y) \<Rightarrow> x \<le> y
      | (KStr x, KStr y) \<Rightarrow> x \<le> y
      | _ \<Rightarrow> key_rank a \<le> key_rank b)"

definition less_key :: "key \<Rightarrow> key \<Rightarrow> bool" where
  "less_key a b = (a \<le> b \<and> \<not> b \<le> (a::key))"

instance
  by standard (auto simp: less_eq_key_def less_key_def split: key.splits)

end

fun key_of :: "cell \<Rightarrow> key option" where
  "key_of NaN = None"
| "key_of PosInf = Some KPosInf"
| "key_of NegInf = Some KNegInf"
| "key_of (FloatV q) = Some (KNum q)"
| "key_of (IntV i) = Some (KNum (of_int i))"
| "key_of (StrV s) = Some (KStr s)"

text \<open>The values of a column in the rows of one group.\<close>

definition members :: "key \<Rightarrow> cell list \<Rightarrow> cell list \<Rightarrow> cell list" where
  "members k ys vs = map snd (filter (\<lambda>(y, v). key_of y = Some k) (zip ys vs))"

text \<open>
  Float addition and division on the modelled values. A division by zero raises nothing:
  it gives an infinity, or \<^verbatim>\<open>NaN\<close> for \<open>0 / 0\<close>.
\<close>

fun fadd :: "cell \<Rightarrow> cell \<Rightarrow> cell" where
  "fadd (FloatV a) (FloatV b) = FloatV (a + b)"
| "fadd (FloatV a) PosInf = PosInf"
| "fadd (FloatV a) NegInf = NegInf"
| "fadd PosInf (FloatV b) = PosInf"
| "fadd PosInf PosInf = PosInf"
| "fadd NegInf (FloatV b) = NegInf"
| "fadd NegInf NegInf = NegInf"
| "fadd a b = NaN"

fun fdiv :: "cell \<Rightarrow> cell \<Rightarrow> cell" where
  "fdiv (FloatV a) (FloatV b) =
     (if b \<noteq> 0 then FloatV (a / b) else if a = 0 then NaN else if 0 < a then PosInf else NegInf)"
| "fdiv (FloatV a) PosInf = FloatV 0"
| "fdiv (FloatV a) NegInf = FloatV 0"
| "fdiv PosInf (FloatV b) = (if 0 \<le> b then PosInf else NegInf)"
| "fdiv NegInf (FloatV b) = (if 0 \<le> b then NegInf else PosInf)"
| "fdiv a b = NaN"

fun int_of :: "cell \<Rightarrow> int" where
  "int_of (IntV i) = i"
| "int_of c = 0"

text \<open>
  The sum of one group of a column. An integer column sums to an integer. A float column
  sums its values other than \<^verbatim>\<open>NaN\<close>, and a group with no such value sums to
  \<^verbatim>\<open>NaN\<close>. A column holding a string is no numeric column: pandas falls back to Python's
  \<^verbatim>\<open>+\<close> on the objects, and the sum or the division after it raises; the model reports
  \<^verbatim>\<open>TypeError\<close> for such a column.
\<close>

definition group_sum :: "cell list \<Rightarrow> cell list \<Rightarrow> py_error + cell" where
  "group_sum whole grp =
     (if list_ex is_text whole then Inl TypeError
      else if list_all is_int whole then Inr (IntV (sum_list (map int_of grp)))
      else (let vs = filter (\<lambda>c. c \<noteq> NaN) grp
            in Inr (if vs = [] then NaN else foldl fadd (FloatV 0) (map to_float vs))))"

definition groupby_year_sum :: "frame \<Rightarrow> py_error + (key \<times> cell \<times> cell) list" where
  "groupby_year_sum df =
     bind_err (column df ''year'') (\<lambda>ys.
     bind_err (column df ''enrollment'') (\<lambda>es.
     bind_err (column df ''protected'') (\<lambda>ps.
       sequence (map (\<lambda>k. bind_err (group_sum es (members k ys es)) (\<lambda>se.
                           bind_err (group_sum ps (members k ys ps)) (\<lambda>sp.
                             Inr (k, se, sp))))
                   (sort (remdups (List.map_filter key_of ys)))))))"

text \<open>\<^verbatim>\<open>a / b\<close> on two columns of sums: pandas divides as floats.\<close>

definition truediv :: "cell \<Rightarrow> cell \<Rightarrow> py_error + cell" where
  "truediv a b =
     (if is_text a \<or> is_text b then Inl TypeError else Inr (fdiv (to_float a) (to_float b)))"

definition prot_perc ::
  "(key \<times> cell \<times> cell) list \<Rightarrow> py_error + (key \<times> cell \<times> cell \<times> cell) list" where
  "prot_perc df_year =
     sequence (map (\<lambda>(k, e, p). map_sum id (\<lambda>r. (k, e, p, r)) (truediv p e)) df_year)"

definition aggregate_by_year :: "frame \<Rightarrow> py_error + (key \<times> cell \<times> cell \<times> cell) list" where
  "aggregate_by_year df = bind_err (groupby_year_sum df) prot_perc"

section \<open>The data model of the specification\<close>









text \<open>
  A column by name, as group keys, so that an integer and the float equal to it are one
  value; a table without that column has \<^verbatim>\<open>NaN\<close> there, which is no key. \<open>id_year\<close> is
  the pair (identifier, year) of every row.
\<close>

definition keyed_column :: "frame \<Rightarrow> string \<Rightarrow> key option list" where
  "keyed_column df name = map (\<lambda>(l, cs). key_of (field df name cs)) (rows df)"

definition id_year :: "frame \<Rightarrow> (key option \<times> key option) list" where
  "id_year df = zip (keyed_column df ''rcdt'') (keyed_column df ''year'')"




section \<open>Example extracts\<close>

text \<open>
  Small tables of the shape of the three files, used to run the pipelines: the 04-05 file
  has a county row without school values, followed by two schools.
\<close>

definition example04 :: frame where
  "example04 = read_csv [''RCDT'', ''County'', ''School'', ''Total Sch. Enroll.'', ''Polio Prot.'']
     [[NaN, StrV ''Adams County'', NaN, NaN, NaN],
      [StrV ''0100100100'', StrV ''Adams'', StrV ''2001'', StrV ''1,234'', StrV ''1,200''],
      [StrV ''0100100200'', StrV ''Adams'', StrV ''n/a'', StrV ''50'', StrV ''40'']]"

definition example04_na :: frame where
  "example04_na = read_csv [''RCDT'', ''County'', ''School'', ''Total Sch. Enroll.'', ''Polio Prot.'']
     [[StrV ''0100100100'', StrV ''Adams'', StrV ''2001'', StrV ''1,234'', StrV ''1,200''],
      [StrV ''0100100200'', StrV ''Adams'', StrV ''2002'', StrV ''n/a'', StrV ''40'']]"


text \<open>
  The 09-10 file: the two counts were read as floats; three schools of one district, the
  second without an enrollment.
\<close>

definition example09 :: frame where
  "example09 = read_csv [''RCDTS'', ''Enrollment'', ''PolioProt'']
     [[StrV ''010010010260001'', FloatV 100, FloatV (181 / 2)],
      [StrV ''010010010260002'', NaN, FloatV 3],
      [StrV ''010010010260003'', FloatV 250, FloatV 240]]"

text \<open>
  The 14-15 file: two rows of headings, a school, rows without values, and at label 4876
  a row that is no school.
\<close>

definition header14 :: "string list" where
  "header14 = [''c0'', ''c1'', ''c2'', ''c3'', ''c4'', ''c5'', ''c6'', ''c7'', ''c8'']"

definition row14 :: "string \<Rightarrow> string \<Rightarrow> string \<Rightarrow> cell list" where
  "row14 a b c = [StrV a, NaN, NaN, StrV b, NaN, NaN, NaN, NaN, StrV c]"

definition example14 :: frame where
  "example14 = read_csv header14
     ([row14 ''RCDTS'' ''District'' ''Polio'',
       row14 ''Code'' ''Enrollment'' ''Protected'',
       row14 ''010010010260001'' ''1,000'' ''900'']
      @ replicate 4873 (replicate 9 NaN)
      @ [row14 ''Total'' ''2,000,000'' ''1,900,000''])"

definition example14_na :: frame where
  "example14_na = read_csv header14
     [row14 ''RCDTS'' ''District'' ''Polio'',
      row14 ''Code'' ''Enrollment'' ''Protected'',
      row14 ''010010010260001'' ''1,000'' ''900'',
      row14 ''010010010260002'' ''250'' ''n/a'']"

section \<open>Coercion of the count columns\<close>

lemma digit_not_space: "is_digit c \<Longrightarrow> \<not> is_space c"
  by (auto simp: is_digit_def is_space_def)

lemma digit_not_sign: "is_digit c \<Longrightarrow> c \<noteq> CHR ''-'' \<and> c \<noteq> CHR ''+''"
  by (auto simp: is_digit_def)

lemma py_strip_digits:
  assumes "ds \<noteq> []" "list_all is_digit ds"
  shows "py_strip ds = ds"
proof -
  have "is_digit (hd ds)" "is_digit (last ds)"
    using assms by (auto simp: list_all_iff)
  then have "\<not> is_space (hd ds)" "\<not> is_space (hd (rev ds))"
    using assms(1) by (simp_all add: digit_not_space hd_rev)
  then have "dropWhile is_space ds = ds" "dropWhile is_space (rev ds) = rev ds"
    by (simp_all add: dropWhile_eq_self_iff)
  then show ?thesis
    by (simp add: py_strip_def)
qed

lemma py_int_digits:
  assumes "ds \<noteq> []" "list_all is_digit ds"
  shows "py_int ds = Inr (digits_int ds)"
proof -
  obtain c r where ds: "ds = c # r"
    using assms(1) by (cases ds) auto
  have "is_digit c"
    using assms(2) ds by simp
  then show ?thesis
    using assms digit_not_sign [of c]
    by (simp add: py_int_def py_strip_digits unsigned_int_def ds)
qed

lemma digits_int_snoc: "digits_int (ds @ [c]) = 10 * digits_int ds + digit_val c"
  by (simp add: digits_int_def)

lemma decimal_snoc: "decimal (ds @ [c]) = 10 * decimal ds + digit_val c"
proof -
  have "(\<Sum>i<length ds. digit_val ((ds @ [c]) ! i) * 10 ^ (Suc (length ds) - Suc i))
      = (\<Sum>i<length ds. 10 * (digit_val (ds ! i) * 10 ^ (length ds - Suc i)))"
  proof (rule sum.cong)
    fix i assume "i \<in> {..<length ds}"
    then have i: "i < length ds" by simp
    then have "Suc (length ds) - Suc i = Suc (length ds - Suc i)" by simp
    then show "digit_val ((ds @ [c]) ! i) * 10 ^ (Suc (length ds) - Suc i)
             = 10 * (digit_val (ds ! i) * 10 ^ (length ds - Suc i))"
      using i by (simp add: nth_append)
  qed simp
  then show ?thesis
    by (simp add: decimal_def sum_distrib_left)
qed

lemma digits_int_decimal: "digits_int ds = decimal ds"
proof (induction ds rule: rev_induct)
  case Nil
  show ?case by (simp add: digits_int_def decimal_def)
next
  case (snoc c ds)
  then show ?case by (simp add: digits_int_snoc decimal_snoc)
qed

lemma to_int_1234: "to_int (StrV ''1,234'') = Inr (IntV 1234)"
  by (simp add: replace_comma_def py_int_def py_strip_def is_space_def unsigned_int_def
      is_digit_def digits_int_def digit_val_def)

section \<open>Truncation of the identifier\<close>

text \<open>
  C10. The truncation \<^verbatim>\<open>x[:-4]\<close> is total on strings: it returns a string for every
  string, and for every string of at most four characters, the empty string included, it
  returns the empty string; it raises nothing.
\<close>

theorem rcdt_of_total:
  "(\<exists>t. rcdt_of (StrV s) = Inr (StrV t)) \<and>
   (length s \<le> 4 \<longrightarrow> rcdt_of (StrV s) = Inr (StrV []))"
  by (simp add: trim4_def)

theorem rcdt_of_total_witness:
  "length ''123'' \<le> 4 \<and> rcdt_of (StrV ''123'') = Inr (StrV []) \<and>
   rcdt_of (StrV []) = Inr (StrV [])"
  using rcdt_of_total [of "''123''"] rcdt_of_total [of "[]"] by simp

section \<open>Evaluating a function over columns\<close>

lemma sequence_Inr_iff: "sequence ms = Inr xs \<longleftrightarrow> ms = map Inr xs"
proof (induction ms arbitrary: xs rule: sequence.induct)
  case 1
  show ?case by auto
next
  case (2 e ms)
  show ?case by auto
next
  case (3 x ms)
  show ?case
  proof (cases "sequence ms")
    case (Inl e)
    with 3 show ?thesis by (cases xs) auto
  next
    case (Inr ys)
    with 3 show ?thesis by (cases xs) auto
  qed
qed

lemma sequence_Inl: "sequence ms = Inl e \<Longrightarrow> Inl e \<in> set ms"
proof (induction ms rule: sequence.induct)
  case (3 x ms)
  then show ?case by (cases "sequence ms") auto
qed auto

lemma sequence_map_Inr:
  assumes "sequence (map f xs) = Inr vs"
  shows "vs = map (\<lambda>x. projr (f x)) xs" and "\<forall>x\<in>set xs. f x = Inr (projr (f x))"
proof -
  from assms have eq: "map f xs = map Inr vs"
    by (simp add: sequence_Inr_iff)
  then have len: "length xs = length vs"
    by (metis length_map)
  have nth: "f (xs ! i) = Inr (vs ! i)" if "i < length xs" for i
    using that eq len by (metis nth_map)
  show "vs = map (\<lambda>x. projr (f x)) xs"
    using len nth by (intro nth_equalityI) simp_all
  show "\<forall>x\<in>set xs. f x = Inr (projr (f x))"
    using nth by (auto simp: in_set_conv_nth)
qed

lemma sequence_map_Inl: "sequence (map f xs) = Inl e \<Longrightarrow> \<exists>x\<in>set xs. f x = Inl e"
  by (drule sequence_Inl) auto


lemma zip_map_same: "zip xs (map h xs) = map (\<lambda>x. (x, h x)) xs"
  by (induction xs) auto

lemma put_column_map:
  "put_column j (map (\<lambda>(l, cs). h cs) (rows df)) df
     = df\<lparr>rows := map (\<lambda>(l, cs). (l, cs[j := h cs])) (rows df)\<rparr>"
proof -
  have "map (\<lambda>(l, cs). h cs) (rows df) = map (\<lambda>r. h (snd r)) (rows df)"
    by (simp add: case_prod_unfold)
  then show ?thesis
    by (simp add: put_column_def zip_map_same case_prod_unfold)
qed

lemma map_column_Inr:
  assumes "map_column f j df = Inr out"
  shows "out = df\<lparr>rows := map (\<lambda>(l, cs). (l, cs[j := projr (f (cell_at cs j))])) (rows df)\<rparr>"
    and "\<forall>(l, cs)\<in>set (rows df). f (cell_at cs j) = Inr (projr (f (cell_at cs j)))"
proof -
  from assms obtain vs where vs: "sequence (map f (column_values df j)) = Inr vs"
    and out: "out = put_column j vs df"
    by (auto simp: map_column_def bind_err_def split: sum.splits)
  from sequence_map_Inr [OF vs]
  have v: "vs = map (\<lambda>(l, cs). projr (f (cell_at cs j))) (rows df)"
    and ok: "\<forall>x\<in>set (column_values df j). f x = Inr (projr (f x))"
    by (simp_all add: column_values_def case_prod_unfold comp_def)
  show "out = df\<lparr>rows := map (\<lambda>(l, cs). (l, cs[j := projr (f (cell_at cs j))])) (rows df)\<rparr>"
    unfolding out v by (rule put_column_map)
  show "\<forall>(l, cs)\<in>set (rows df). f (cell_at cs j) = Inr (projr (f (cell_at cs j)))"
    using ok by (auto simp: column_values_def)
qed

lemma map_column_Inl:
  assumes "map_column f j df = Inl e"
  shows "\<exists>(l, cs)\<in>set (rows df). f (cell_at cs j) = Inl e"
proof -
  from assms have "sequence (map f (column_values df j)) = Inl e"
    by (auto simp: map_column_def bind_err_def split: sum.splits)
  then obtain x where "x \<in> set (column_values df j)" "f x = Inl e"
    by (auto dest!: sequence_map_Inl)
  then show ?thesis
    by (force simp: column_values_def)
qed

lemma map_column_fails:
  assumes "(l, cs) \<in> set (rows df)" and "f (cell_at cs j) = Inl e"
  shows "\<exists>e'. map_column f j df = Inl e'"
proof (cases "map_column f j df")
  case (Inr out)
  from map_column_Inr(2) [OF Inr] assms show ?thesis by force
qed auto

lemma cell_at_update: "i \<noteq> j \<Longrightarrow> cell_at (cs[i := v]) j = cell_at cs j"
  by (simp add: cell_at_def)

lemma map_columns2_Inr:
  assumes "map_columns f [i, j] df = Inr out" and "i \<noteq> j"
  shows "columns out = columns df"
    and "rows out = map (\<lambda>(l, cs). (l, cs[i := projr (f (cell_at cs i)),
                                            j := projr (f (cell_at cs j))])) (rows df)"
    and "\<forall>(l, cs)\<in>set (rows df). f (cell_at cs i) = Inr (projr (f (cell_at cs i)))
                                \<and> f (cell_at cs j) = Inr (projr (f (cell_at cs j)))"
proof -
  from assms(1) obtain d where d: "map_column f i df = Inr d" and o: "map_column f j d = Inr out"
    by (auto simp: bind_err_def split: sum.splits)
  note d1 = map_column_Inr [OF d] and o1 = map_column_Inr [OF o]
  show "columns out = columns df"
    by (subst o1(1), subst d1(1)) simp
  show "rows out = map (\<lambda>(l, cs). (l, cs[i := projr (f (cell_at cs i)),
                                          j := projr (f (cell_at cs j))])) (rows df)"
    by (subst o1(1), subst d1(1)) (simp add: case_prod_unfold comp_def cell_at_update assms(2))
  have "\<forall>(l, cs)\<in>set (rows df). f (cell_at cs j) = Inr (projr (f (cell_at cs j)))"
  proof (clarify)
    fix l cs assume "(l, cs) \<in> set (rows df)"
    then have "(l, cs[i := projr (f (cell_at cs i))]) \<in> set (rows d)"
      by (subst d1(1)) force
    with o1(2) show "f (cell_at cs j) = Inr (projr (f (cell_at cs j)))"
      using assms(2) by (fastforce simp: cell_at_update)
  qed
  with d1(2) show "\<forall>(l, cs)\<in>set (rows df). f (cell_at cs i) = Inr (projr (f (cell_at cs i)))
                                \<and> f (cell_at cs j) = Inr (projr (f (cell_at cs j)))"
    by fast
qed

lemma map_columns_fails:
  assumes "(l, cs) \<in> set (rows df)" and "j \<in> set js" and "f (cell_at cs j) = Inl e"
  shows "\<exists>e'. map_columns f js df = Inl e'"
  using assms
proof (induction js arbitrary: df cs)
  case Nil
  then show ?case by simp
next
  case (Cons i js)
  show ?case
  proof (cases "map_column f i df")
    case (Inl e')
    then show ?thesis by (simp add: bind_err_def)
  next
    case (Inr d)
    note d1 = map_column_Inr [OF Inr]
    have ne: "i \<noteq> j"
      using d1(2) Cons.prems(1,3) by force
    have "(l, cs[i := projr (f (cell_at cs i))]) \<in> set (rows d)"
      using Cons.prems(1) by (subst d1(1)) force
    moreover have "j \<in> set js"
      using ne Cons.prems(2) by auto
    moreover have "f (cell_at (cs[i := projr (f (cell_at cs i))]) j) = Inl e"
      using ne Cons.prems(3) by (simp add: cell_at_update)
    ultimately have "\<exists>e'. map_columns f js d = Inl e'"
      by (rule Cons.IH)
    then show ?thesis
      by (simp add: bind_err_def Inr)
  qed
qed

lemma map_columns_error:
  assumes "map_columns f js df = Inl e"
  shows "\<exists>c. f c = Inl e"
  using assms
proof (induction js arbitrary: df)
  case Nil
  then show ?case by simp
next
  case (Cons i js)
  then show ?case
    by (cases "map_column f i df") (auto simp: bind_err_def dest: map_column_Inl)
qed

section \<open>What the three pipelines return\<close>

lemma index_of_None: "index_of xs x = None \<longleftrightarrow> x \<notin> set xs"
  by (induction xs) auto

lemma index_of_Some: "index_of xs x = Some j \<Longrightarrow> j < length xs \<and> xs ! j = x"
  by (induction xs arbitrary: j) (auto split: if_splits)

lemma columns_dropna: "columns (dropna df) = columns df"
  by (simp add: dropna_def)

lemma rows_dropna: "rows (dropna df) = filter (\<lambda>(l, cs). \<not> is_blank cs) (rows df)"
  by (simp add: dropna_def)

lemma columns_ix_columns: "columns (ix_columns ns df) = ns"
  by (simp add: ix_columns_def)

lemma rows_ix_columns:
  "rows (ix_columns ns df) = map (\<lambda>(l, cs). (l, map (\<lambda>n. field df n cs) ns)) (rows df)"
  by (simp add: ix_columns_def)

lemma set_const_new:
  assumes "name \<notin> set (columns df)"
  shows "set_const name v df
           = \<lparr>columns = columns df @ [name], rows = map (\<lambda>(l, cs). (l, cs @ [v])) (rows df)\<rparr>"
  using assms
  by (simp add: set_const_def set_column_def index_of_None [THEN iffD2] zip_replicate2
      case_prod_unfold)

lemma length4: "length cs = 4 \<Longrightarrow> \<exists>a b c d. cs = [a, b, c, d]"
  by (auto simp: numeral_eq_Suc length_Suc_conv)

lemma length3: "length cs = 3 \<Longrightarrow> \<exists>a b c. cs = [a, b, c]"
  by (auto simp: numeral_eq_Suc length_Suc_conv)


lemma to_int_Inl: "to_int c = Inl e \<Longrightarrow> e = ValueError \<or> e = AttributeError"
  by (cases c)
     (auto simp: map_sum_def py_int_def unsigned_int_def split: sum.splits list.splits if_splits)

subsection \<open>Years 04-05\<close>

lemma length_rows_projected04:
  "(l, cs) \<in> set (rows (dropna (ix_columns columns_to_keep04 df))) \<Longrightarrow> length cs = 4"
  by (auto simp: rows_dropna rows_ix_columns columns_to_keep04_def)

lemma clean04_map_columns:
  "clean04 df = map_columns to_int [2, 3] (dropna (ix_columns columns_to_keep04 df))"
  by (simp add: clean04_def applymap_def columns_dropna columns_ix_columns
      columns_to_keep04_def map_filter_simps numeral_2_eq_2 numeral_3_eq_3)

lemma prepare04_Inr:
  assumes "columns d = columns_to_keep04"
  shows "prepare04 d = Inr \<lparr>columns = columns_we_want,
           rows = map (\<lambda>(l, cs). (l, remove_nth 1 cs @ [IntV 2004])) (rows d)\<rparr>"
  using assms
  by (simp add: prepare04_def drop_column_def columns_to_keep04_def bind_err_def
      remove_nth_def set_const_new set_columns_def columns_we_want_def comp_def case_prod_unfold)

lemma normalize04_Inr:
  assumes "normalize04 df = Inr out"
  shows "columns out = columns_we_want"
    and "rows out = map (\<lambda>(l, cs). (l, [cell_at cs 0, projr (to_int (cell_at cs 2)),
                                          projr (to_int (cell_at cs 3)), IntV 2004]))
                      (rows (dropna (ix_columns columns_to_keep04 df)))"
    and "\<forall>(l, cs)\<in>set (rows (dropna (ix_columns columns_to_keep04 df))).
           to_int (cell_at cs 2) = Inr (projr (to_int (cell_at cs 2)))
         \<and> to_int (cell_at cs 3) = Inr (projr (to_int (cell_at cs 3)))"
proof -
  let ?p = "dropna (ix_columns columns_to_keep04 df)"
  from assms obtain d where d: "map_columns to_int [2, 3] ?p = Inr d" and o: "prepare04 d = Inr out"
    by (auto simp: normalize04_def bind_err_def clean04_map_columns split: sum.splits)
  have ne: "(2::nat) \<noteq> 3" by simp
  note d1 = map_columns2_Inr [OF d ne]
  have cd: "columns d = columns_to_keep04"
    using d1(1) by (simp add: columns_dropna columns_ix_columns)
  from o have out: "out = \<lparr>columns = columns_we_want,
           rows = map (\<lambda>(l, cs). (l, remove_nth 1 cs @ [IntV 2004])) (rows d)\<rparr>"
    by (simp add: prepare04_Inr [OF cd])
  show "columns out = columns_we_want"
    by (simp add: out)
  show "\<forall>(l, cs)\<in>set (rows ?p).
           to_int (cell_at cs 2) = Inr (projr (to_int (cell_at cs 2)))
         \<and> to_int (cell_at cs 3) = Inr (projr (to_int (cell_at cs 3)))"
    by (rule d1(3))
  have "map (\<lambda>(l, cs). (l, remove_nth 1 cs @ [IntV 2004]))
          (map (\<lambda>(l, cs). (l, cs[2 := projr (to_int (cell_at cs 2)),
                                  3 := projr (to_int (cell_at cs 3))])) (rows ?p))
      = map (\<lambda>(l, cs). (l, [cell_at cs 0, projr (to_int (cell_at cs 2)),
                              projr (to_int (cell_at cs 3)), IntV 2004])) (rows ?p)"
  proof (simp only: map_map, rule map_cong [OF refl])
    fix r assume r: "r \<in> set (rows ?p)"
    obtain l cs where lc: "r = (l, cs)" by (cases r)
    with r have "length cs = 4" by (auto dest: length_rows_projected04)
    then obtain a b c e where "cs = [a, b, c, e]" by (auto dest: length4)
    then show "((\<lambda>(l, cs). (l, remove_nth 1 cs @ [IntV 2004])) \<circ>
                (\<lambda>(l, cs). (l, cs[2 := projr (to_int (cell_at cs 2)),
                                  3 := projr (to_int (cell_at cs 3))]))) r
             = (case r of (l, cs) \<Rightarrow> (l, [cell_at cs 0, projr (to_int (cell_at cs 2)),
                              projr (to_int (cell_at cs 3)), IntV 2004]))"
      by (simp add: lc remove_nth_def cell_at_def)
  qed
  then show "rows out = map (\<lambda>(l, cs). (l, [cell_at cs 0, projr (to_int (cell_at cs 2)),
                                          projr (to_int (cell_at cs 3)), IntV 2004])) (rows ?p)"
    by (simp add: out d1(2))
qed

subsection \<open>Years 09-10\<close>

lemma with_year_Inr:
  assumes "length (columns d) = 3" and "''Year'' \<notin> set (columns d)"
  shows "with_year y d = Inr \<lparr>columns = master_columns,
           rows = map (\<lambda>(l, cs). (l, cs @ [IntV y])) (rows d)\<rparr>"
  using assms
  by (simp add: with_year_def set_const_new set_columns_def master_columns_def)


subsection \<open>Years 14-15\<close>

lemma ix_from_Inr:
  assumes "ix_from 2 [0, 3, 8] df = Inr p"
  shows "length (columns p) = 3"
    and "rows p = map (\<lambda>(l, cs). (l, [cell_at cs 0, cell_at cs 3, cell_at cs 8]))
                    (filter (\<lambda>(l, cs). 2 \<le> l) (rows df))"
  using assms by (auto simp: ix_from_def split: if_splits)

lemma applymap14:
  assumes "columns d = [''RCDTS'', ''Enrolled'', ''Protected'']"
  shows "applymap to_int [''Enrolled'', ''Protected''] d = map_columns to_int [1, 2] d"
  using assms by (simp add: applymap_def map_filter_simps numeral_2_eq_2)

lemma drop_label_Inr:
  assumes "drop_label k d = Inr out"
  shows "k \<in> set (labels d)" and "columns out = columns d"
    and "rows out = filter (\<lambda>(l, cs). l \<noteq> k) (rows d)"
  using assms by (auto simp: drop_label_def split: if_splits)

lemma normalize14_Inr:
  assumes "normalize14 df = Inr out"
  obtains p where "ix_from 2 [0, 3, 8] df = Inr p"
    and "columns out = master_columns"
    and "rows out = map (\<lambda>(l, cs). (l, [cell_at cs 0, projr (to_int (cell_at cs 1)),
                                          projr (to_int (cell_at cs 2)), IntV 2014]))
                      (filter (\<lambda>(l, cs). l \<noteq> 4876) (rows (dropna p)))"
    and "4876 \<in> set (labels (dropna p))"
    and "\<forall>(l, cs)\<in>set (rows (dropna p)).
           to_int (cell_at cs 1) = Inr (projr (to_int (cell_at cs 1)))
         \<and> to_int (cell_at cs 2) = Inr (projr (to_int (cell_at cs 2)))"
proof -
  from assms obtain c where c: "clean14 df = Inr c" and o: "with_year 2014 c = Inr out"
    by (auto simp: normalize14_def bind_err_def split: sum.splits)
  from c obtain p d a where p: "ix_from 2 [0, 3, 8] df = Inr p"
    and d: "set_columns [''RCDTS'', ''Enrolled'', ''Protected''] (dropna p) = Inr d"
    and a: "applymap to_int [''Enrolled'', ''Protected''] d = Inr a"
    and k: "drop_label 4876 a = Inr c"
    by (auto simp: clean14_def bind_err_def split: sum.splits)
  note p1 = ix_from_Inr [OF p]
  from d have cd: "columns d = [''RCDTS'', ''Enrolled'', ''Protected'']"
    and rd: "rows d = rows (dropna p)"
    by (auto simp: set_columns_def split: if_splits)
  have ne: "(1::nat) \<noteq> 2" by simp
  from a have a': "map_columns to_int [1, 2] d = Inr a"
    by (simp add: applymap14 [OF cd])
  note a1 = map_columns2_Inr [OF a' ne]
  note k1 = drop_label_Inr [OF k]
  have cc: "length (columns c) = 3" "''Year'' \<notin> set (columns c)"
    by (simp_all add: k1(2) a1(1) cd)
  from with_year_Inr [OF cc] o
  have out: "out = \<lparr>columns = master_columns,
           rows = map (\<lambda>(l, cs). (l, cs @ [IntV 2014])) (rows c)\<rparr>"
    by simp
  have len: "length cs = 3" if "(l, cs) \<in> set (rows (dropna p))" for l cs
    using that by (auto simp: rows_dropna p1(2))
  have lab: "labels a = labels (dropna p)"
    by (simp add: labels_def a1(2) rd case_prod_unfold comp_def)
  have rows_c: "rows c = map (\<lambda>(l, cs). (l, cs[1 := projr (to_int (cell_at cs 1)),
                                               2 := projr (to_int (cell_at cs 2))]))
                           (filter (\<lambda>(l, cs). l \<noteq> 4876) (rows (dropna p)))"
    by (simp add: k1(3) a1(2) rd filter_map comp_def case_prod_unfold)
  have "map (\<lambda>(l, cs). (l, cs @ [IntV 2014])) (rows c)
      = map (\<lambda>(l, cs). (l, [cell_at cs 0, projr (to_int (cell_at cs 1)),
                              projr (to_int (cell_at cs 2)), IntV 2014]))
          (filter (\<lambda>(l, cs). l \<noteq> 4876) (rows (dropna p)))"
  proof (simp only: rows_c map_map, rule map_cong [OF refl])
    fix r assume r: "r \<in> set (filter (\<lambda>(l, cs). l \<noteq> 4876) (rows (dropna p)))"
    obtain l cs where lc: "r = (l, cs)" by (cases r)
    with r have "length cs = 3" by (auto dest: len)
    then obtain x y z where "cs = [x, y, z]" by (auto dest: length3)
    then show "((\<lambda>(l, cs). (l, cs @ [IntV 2014])) \<circ>
                (\<lambda>(l, cs). (l, cs[1 := projr (to_int (cell_at cs 1)),
                                  2 := projr (to_int (cell_at cs 2))]))) r
             = (case r of (l, cs) \<Rightarrow> (l, [cell_at cs 0, projr (to_int (cell_at cs 1)),
                              projr (to_int (cell_at cs 2)), IntV 2014]))"
      by (simp add: lc cell_at_def)
  qed
  then have ro: "rows out = map (\<lambda>(l, cs). (l, [cell_at cs 0, projr (to_int (cell_at cs 1)),
                                          projr (to_int (cell_at cs 2)), IntV 2014]))
                      (filter (\<lambda>(l, cs). l \<noteq> 4876) (rows (dropna p)))"
    by (simp add: out)
  show thesis
  proof (rule that [OF p _ ro])
    show "columns out = master_columns" by (simp add: out)
    show "4876 \<in> set (labels (dropna p))" using k1(1) lab by simp
    show "\<forall>(l, cs)\<in>set (rows (dropna p)).
           to_int (cell_at cs 1) = Inr (projr (to_int (cell_at cs 1)))
         \<and> to_int (cell_at cs 2) = Inr (projr (to_int (cell_at cs 2)))"
      using a1(3) by (simp add: rd)
  qed
qed

section \<open>The pipelines on the examples\<close>

lemma bind_err_Inr: "bind_err (Inr x) f = f x"
  by (simp add: bind_err_def)

lemma frame_eqI: "columns a = c \<Longrightarrow> rows a = r \<Longrightarrow> (a::frame) = \<lparr>columns = c, rows = r\<rparr>"
  by (cases a) simp

lemma clean04_example:
  "clean04 example04
     = Inr \<lparr>columns = [''RCDT'', ''School'', ''Total Sch. Enroll.'', ''Polio Prot.''],
            rows = [(1, [StrV ''0100100100'', StrV ''2001'', IntV 1234, IntV 1200]),
                    (2, [StrV ''0100100200'', StrV ''n/a'', IntV 50, IntV 40])]\<rparr>"
  by code_simp

lemma normalize04_example:
  "normalize04 example04
     = Inr \<lparr>columns = [''rcdt'', ''enrollment'', ''protected'', ''year''],
            rows = [(1, [StrV ''0100100100'', IntV 1234, IntV 1200, IntV 2004]),
                    (2, [StrV ''0100100200'', IntV 50, IntV 40, IntV 2004])]\<rparr>"
  by code_simp


lemma normalize04_na: "normalize04 example04_na = Inl ValueError"
  by code_simp

lemma clean09_example:
  "clean09 example09
     = Inr \<lparr>columns = [''RCDTS'', ''Enrollment'', ''PolioProt''],
            rows = [(0, [StrV ''010010010260001'', FloatV 100, FloatV (181 / 2)]),
                    (2, [StrV ''010010010260003'', FloatV 250, FloatV 240])]\<rparr>"
  by code_simp


lemma blank_block:
  "filter (\<lambda>(l, cs). \<not> is_blank cs)
     (map (\<lambda>(l, cs). (l, map (cell_at cs) [0, 3, 8]))
        (filter (\<lambda>(l, cs). 2 \<le> l) (enumerate k (replicate n (replicate 9 NaN))))) = []"
  by (auto simp: filter_empty_conv in_set_enumerate_eq is_blank_def cell_at_def)

lemma rows_read_csv_block:
  "rows (read_csv h (a @ replicate n b @ [c]))
     = enumerate 0 a @ enumerate (length a) (replicate n b) @ [(length a + n, c)]"
  by (simp add: read_csv_def enumerate_append_eq)

lemma rows_dropna_block:
  assumes "ix_from 2 [0, 3, 8] (read_csv h (a @ replicate n (replicate 9 NaN) @ [c])) = Inr p"
  shows "rows (dropna p)
     = filter (\<lambda>(l, cs). \<not> is_blank cs)
         (map (\<lambda>(l, cs). (l, map (cell_at cs) [0, 3, 8]))
            (filter (\<lambda>(l, cs). 2 \<le> l) (enumerate 0 a @ [(length a + n, c)])))"
proof -
  from assms have "rows p = map (\<lambda>(l, cs). (l, map (cell_at cs) [0, 3, 8]))
       (filter (\<lambda>(l, cs). 2 \<le> l) (rows (read_csv h (a @ replicate n (replicate 9 NaN) @ [c]))))"
    by (auto simp: ix_from_def split: if_splits)
  then show ?thesis
    by (simp only: rows_dropna rows_read_csv_block filter_append map_append blank_block
        append_Nil)
qed

lemma coerce_and_drop_example:
  "bind_err (set_columns [''RCDTS'', ''Enrolled'', ''Protected'']
        \<lparr>columns = [''c0'', ''c3'', ''c8''],
         rows = [(2, [StrV ''010010010260001'', StrV ''1,000'', StrV ''900'']),
                 (4876, [StrV ''Total'', StrV ''2,000,000'', StrV ''1,900,000''])]\<rparr>)
        (\<lambda>d. bind_err (applymap to_int [''Enrolled'', ''Protected''] d) (drop_label 4876))
   = Inr \<lparr>columns = [''RCDTS'', ''Enrolled'', ''Protected''],
          rows = [(2, [StrV ''010010010260001'', IntV 1000, IntV 900])]\<rparr>"
  by code_simp

lemma clean14_example:
  "clean14 example14
     = Inr \<lparr>columns = [''RCDTS'', ''Enrolled'', ''Protected''],
            rows = [(2, [StrV ''010010010260001'', IntV 1000, IntV 900])]\<rparr>"
proof -
  obtain p where p: "ix_from 2 [0, 3, 8] example14 = Inr p"
    and cp: "columns p = [''c0'', ''c3'', ''c8'']"
    by (simp add: ix_from_def example14_def read_csv_def header14_def)
  have "rows (dropna p)
      = [(2, [StrV ''010010010260001'', StrV ''1,000'', StrV ''900'']),
         (4876, [StrV ''Total'', StrV ''2,000,000'', StrV ''1,900,000''])]"
    using rows_dropna_block [OF p [unfolded example14_def]]
    by (simp add: row14_def cell_at_def is_blank_def)
  then have d: "dropna p = \<lparr>columns = [''c0'', ''c3'', ''c8''],
         rows = [(2, [StrV ''010010010260001'', StrV ''1,000'', StrV ''900'']),
                 (4876, [StrV ''Total'', StrV ''2,000,000'', StrV ''1,900,000''])]\<rparr>"
    by (intro frame_eqI) (simp_all add: columns_dropna cp)
  show ?thesis
    by (simp only: clean14_def p bind_err_Inr d coerce_and_drop_example)
qed

lemma with_year_example14:
  "with_year 2014 \<lparr>columns = [''RCDTS'', ''Enrolled'', ''Protected''],
            rows = [(2, [StrV ''010010010260001'', IntV 1000, IntV 900])]\<rparr>
     = Inr \<lparr>columns = [''rcdts'', ''enrollment'', ''protected'', ''year''],
            rows = [(2, [StrV ''010010010260001'', IntV 1000, IntV 900, IntV 2014])]\<rparr>"
  by code_simp

lemma normalize14_example:
  "normalize14 example14
     = Inr \<lparr>columns = [''rcdts'', ''enrollment'', ''protected'', ''year''],
            rows = [(2, [StrV ''010010010260001'', IntV 1000, IntV 900, IntV 2014])]\<rparr>"
  by (simp only: normalize14_def clean14_example bind_err_Inr with_year_example14)

lemma normalize14_na: "normalize14 example14_na = Inl ValueError"
  by code_simp

lemma master_tail_example:
  "bind_err (with_year 2014 \<lparr>columns = [''RCDTS'', ''Enrolled'', ''Protected''],
            rows = [(2, [StrV ''010010010260001'', IntV 1000, IntV 900])]\<rparr>) (\<lambda>df14.
   bind_err (with_year 2009 \<lparr>columns = [''RCDTS'', ''Enrollment'', ''PolioProt''],
            rows = [(0, [StrV ''010010010260001'', FloatV 100, FloatV (181 / 2)]),
                    (2, [StrV ''010010010260003'', FloatV 250, FloatV 240])]\<rparr>) (\<lambda>df09.
   bind_err (rcdts_to_rcdt (pd_concat df14 df09)) (\<lambda>df.
   bind_err (prepare04 \<lparr>columns = [''RCDT'', ''School'', ''Total Sch. Enroll.'', ''Polio Prot.''],
            rows = [(1, [StrV ''0100100100'', StrV ''2001'', IntV 1234, IntV 1200]),
                    (2, [StrV ''0100100200'', StrV ''n/a'', IntV 50, IntV 40])]\<rparr>) (\<lambda>df04.
     Inr (pd_concat df df04)))))
   = Inr \<lparr>columns = [''rcdt'', ''enrollment'', ''protected'', ''year''],
          rows = [(2, [StrV ''01001001026'', FloatV 1000, FloatV 900, IntV 2014]),
                  (0, [StrV ''01001001026'', FloatV 100, FloatV (181 / 2), IntV 2009]),
                  (2, [StrV ''01001001026'', FloatV 250, FloatV 240, IntV 2009]),
                  (1, [StrV ''0100100100'', FloatV 1234, FloatV 1200, IntV 2004]),
                  (2, [StrV ''0100100200'', FloatV 50, FloatV 40, IntV 2004])]\<rparr>"
  by code_simp

lemma master_example:
  "master example04 example09 example14
   = Inr \<lparr>columns = [''rcdt'', ''enrollment'', ''protected'', ''year''],
          rows = [(2, [StrV ''01001001026'', FloatV 1000, FloatV 900, IntV 2014]),
                  (0, [StrV ''01001001026'', FloatV 100, FloatV (181 / 2), IntV 2009]),
                  (2, [StrV ''01001001026'', FloatV 250, FloatV 240, IntV 2009]),
                  (1, [StrV ''0100100100'', FloatV 1234, FloatV 1200, IntV 2004]),
                  (2, [StrV ''0100100200'', FloatV 50, FloatV 40, IntV 2004])]\<rparr>"
  by (simp only: master_def clean04_example clean09_example clean14_example bind_err_Inr
      master_tail_example)

section \<open>Coercion in the pipelines\<close>

lemma rows_normalize14:
  assumes "normalize14 df = Inr out"
  shows "\<exists>p. ix_from 2 [0, 3, 8] df = Inr p
           \<and> rows out = map (\<lambda>(l, cs). (l, [cell_at cs 0, projr (to_int (cell_at cs 1)),
                                                projr (to_int (cell_at cs 2)), IntV 2014]))
                            (filter (\<lambda>(l, cs). l \<noteq> 4876) (rows (dropna p)))"
proof -
  from assms obtain p where "ix_from 2 [0, 3, 8] df = Inr p"
    and "rows out = map (\<lambda>(l, cs). (l, [cell_at cs 0, projr (to_int (cell_at cs 1)),
                                          projr (to_int (cell_at cs 2)), IntV 2014]))
                      (filter (\<lambda>(l, cs). l \<noteq> 4876) (rows (dropna p)))"
    by (rule normalize14_Inr)
  then show ?thesis by blast
qed

text \<open>
  C4. A count written with digits and comma separators is coerced by removing the commas
  and reading the remaining digits as a base-10 numeral: whenever the string without its
  commas is a non-empty sequence \<open>ds\<close> of digits, the coercion returns the integer that
  \<open>ds\<close> denotes by position. The string \<^verbatim>\<open>1,234\<close> gives the integer 1234. In the rows
  that the 04-05 and the 14-15 pipeline return, each of the two counts is this coercion of
  the cell that was read.
\<close>

theorem to_int_grouping_separators:
  assumes "replace_comma s = ds" and "ds \<noteq> []" and "list_all is_digit ds"
  shows "to_int (StrV s) = Inr (IntV (decimal ds))
       \<and> to_int (StrV ''1,234'') = Inr (IntV 1234)
       \<and> (normalize04 df = Inr out \<longrightarrow>
            rows out = map (\<lambda>(l, cs). (l, [cell_at cs 0, projr (to_int (cell_at cs 2)),
                                             projr (to_int (cell_at cs 3)), IntV 2004]))
                         (rows (dropna (ix_columns columns_to_keep04 df))))
       \<and> (normalize14 df = Inr out \<longrightarrow>
            (\<exists>p. ix_from 2 [0, 3, 8] df = Inr p
               \<and> rows out = map (\<lambda>(l, cs). (l, [cell_at cs 0, projr (to_int (cell_at cs 1)),
                                                    projr (to_int (cell_at cs 2)), IntV 2014]))
                                (filter (\<lambda>(l, cs). l \<noteq> 4876) (rows (dropna p)))))"
proof (intro conjI impI)
  show "to_int (StrV s) = Inr (IntV (decimal ds))"
    using assms by (simp add: py_int_digits digits_int_decimal)
  show "to_int (StrV ''1,234'') = Inr (IntV 1234)"
    by (rule to_int_1234)
  show "rows out = map (\<lambda>(l, cs). (l, [cell_at cs 0, projr (to_int (cell_at cs 2)),
                                          projr (to_int (cell_at cs 3)), IntV 2004]))
                      (rows (dropna (ix_columns columns_to_keep04 df)))"
    if "normalize04 df = Inr out"
    using that by (rule normalize04_Inr(2))
  show "\<exists>p. ix_from 2 [0, 3, 8] df = Inr p
           \<and> rows out = map (\<lambda>(l, cs). (l, [cell_at cs 0, projr (to_int (cell_at cs 1)),
                                                projr (to_int (cell_at cs 2)), IntV 2014]))
                            (filter (\<lambda>(l, cs). l \<noteq> 4876) (rows (dropna p)))"
    if "normalize14 df = Inr out"
    using that by (rule rows_normalize14)
qed

theorem to_int_grouping_separators_witness:
  "replace_comma ''12,345,678'' = ''12345678'' \<and> ''12345678'' \<noteq> [] \<and>
   list_all is_digit ''12345678'' \<and>
   to_int (StrV ''12,345,678'') = Inr (IntV (decimal ''12345678'')) \<and>
   decimal ''12345678'' = 12345678 \<and>
   normalize04 example04
     = Inr \<lparr>columns = [''rcdt'', ''enrollment'', ''protected'', ''year''],
            rows = [(1, [StrV ''0100100100'', IntV 1234, IntV 1200, IntV 2004]),
                    (2, [StrV ''0100100200'', IntV 50, IntV 40, IntV 2004])]\<rparr> \<and>
   rows (dropna (ix_columns columns_to_keep04 example04))
     = [(1, [StrV ''0100100100'', StrV ''2001'', StrV ''1,234'', StrV ''1,200'']),
        (2, [StrV ''0100100200'', StrV ''n/a'', StrV ''50'', StrV ''40''])] \<and>
   normalize14 example14
     = Inr \<lparr>columns = [''rcdts'', ''enrollment'', ''protected'', ''year''],
            rows = [(2, [StrV ''010010010260001'', IntV 1000, IntV 900, IntV 2014])]\<rparr> \<and>
   (\<exists>p. ix_from 2 [0, 3, 8] example14 = Inr p
      \<and> [(2, [StrV ''010010010260001'', IntV 1000, IntV 900, IntV 2014])]
          = map (\<lambda>(l, cs). (l, [cell_at cs 0, projr (to_int (cell_at cs 1)),
                                  projr (to_int (cell_at cs 2)), IntV 2014]))
              (filter (\<lambda>(l, cs). l \<noteq> 4876) (rows (dropna p))))"
proof -
  let ?o04 = "\<lparr>columns = [''rcdt'', ''enrollment'', ''protected'', ''year''],
            rows = [(1, [StrV ''0100100100'', IntV 1234, IntV 1200, IntV 2004]),
                    (2, [StrV ''0100100200'', IntV 50, IntV 40, IntV 2004])]\<rparr>"
  let ?o14 = "\<lparr>columns = [''rcdts'', ''enrollment'', ''protected'', ''year''],
            rows = [(2, [StrV ''010010010260001'', IntV 1000, IntV 900, IntV 2014])]\<rparr>"
  have a: "replace_comma ''12,345,678'' = ''12345678''"
    by (simp add: replace_comma_def)
  have b: "''12345678'' \<noteq> []"
    by simp
  have c: "list_all is_digit ''12345678''"
    by (simp add: is_digit_def)
  have d: "decimal ''12345678'' = 12345678"
    by (simp add: decimal_def digit_val_def lessThan_Suc numeral_eq_Suc)
  have e: "rows (dropna (ix_columns columns_to_keep04 example04))
     = [(1, [StrV ''0100100100'', StrV ''2001'', StrV ''1,234'', StrV ''1,200'']),
        (2, [StrV ''0100100200'', StrV ''n/a'', StrV ''50'', StrV ''40''])]"
    by code_simp
  from to_int_grouping_separators [OF a b c, of example14 ?o14] normalize14_example
  have f: "\<exists>p. ix_from 2 [0, 3, 8] example14 = Inr p
      \<and> rows ?o14
          = map (\<lambda>(l, cs). (l, [cell_at cs 0, projr (to_int (cell_at cs 1)),
                                  projr (to_int (cell_at cs 2)), IntV 2014]))
              (filter (\<lambda>(l, cs). l \<noteq> 4876) (rows (dropna p)))"
    by blast
  have r: "rows ?o14 = [(2, [StrV ''010010010260001'', IntV 1000, IntV 900, IntV 2014])]"
    by simp
  note f' = f [unfolded r]
  from to_int_grouping_separators [OF a b c, of example04 ?o04]
  have g: "to_int (StrV ''12,345,678'') = Inr (IntV (decimal ''12345678''))"
    by blast
  from a b c d e f' g normalize04_example normalize14_example show ?thesis
    by (intro conjI)
qed

section \<open>Null filtering\<close>

lemma labels_map_rows:
  "labels (d\<lparr>rows := map (\<lambda>(l, cs). (l, g l cs)) rs\<rparr>) = map fst rs"
  by (simp add: labels_def case_prod_unfold comp_def)











section \<open>The row dropped by its label\<close>



section \<open>The type and sign of the counts\<close>













section \<open>A count that does not parse\<close>

lemma map_columns_to_int_fails:
  assumes "(l, cs) \<in> set (rows d)" and "j \<in> set js" and "to_int (cell_at cs j) = Inl e"
  shows "map_columns to_int js d = Inl ValueError \<or> map_columns to_int js d = Inl AttributeError"
proof -
  from map_columns_fails [of l cs d j js to_int e, OF assms] obtain e' where e': "map_columns to_int js d = Inl e'"
    by blast
  from map_columns_error [OF e'] obtain c where "to_int c = Inl e'"
    by blast
  then have "e' = ValueError \<or> e' = AttributeError"
    by (rule to_int_Inl)
  with e' show ?thesis by auto
qed

lemma to_int_unparsed:
  assumes "c = StrV s" and "py_int (replace_comma s) = Inl ValueError"
  shows "to_int c = Inl ValueError"
  using assms by simp

lemma normalize04_fails:
  assumes "(l, cs) \<in> set (rows (dropna (ix_columns columns_to_keep04 df)))"
    and "j = 2 \<or> j = 3" and "to_int (cell_at cs j) = Inl e"
  shows "normalize04 df = Inl ValueError \<or> normalize04 df = Inl AttributeError"
proof -
  have "j \<in> set [2, 3]"
    using assms(2) by auto
  from map_columns_to_int_fails [of l cs _ j "[2, 3]" e, OF assms(1) this assms(3)] show ?thesis
    by (auto simp: normalize04_def clean04_map_columns bind_err_def)
qed

lemma normalize14_fails:
  assumes "ix_from 2 [0, 3, 8] df = Inr p" and "(l, cs) \<in> set (rows (dropna p))"
    and "j = 1 \<or> j = 2" and "to_int (cell_at cs j) = Inl e"
  shows "normalize14 df = Inl ValueError \<or> normalize14 df = Inl AttributeError"
proof -
  let ?d = "(dropna p)\<lparr>columns := [''RCDTS'', ''Enrolled'', ''Protected'']\<rparr>"
  have d: "set_columns [''RCDTS'', ''Enrolled'', ''Protected''] (dropna p) = Inr ?d"
    using ix_from_Inr(1) [OF assms(1)] by (simp add: set_columns_def columns_dropna)
  have a: "applymap to_int [''Enrolled'', ''Protected''] ?d = map_columns to_int [1, 2] ?d"
    by (rule applymap14) simp
  have "(l, cs) \<in> set (rows ?d)" "j \<in> set [1, 2]"
    using assms(2,3) by auto
  from map_columns_to_int_fails [of l cs ?d j "[1, 2]" e, OF this assms(4)] show ?thesis
    by (auto simp: normalize14_def clean14_def assms(1) d a bind_err_def)
qed

text \<open>
  C3, as stated, fails. In the 04-05 example the first school has well-formed counts and
  the second has \<^verbatim>\<open>n/a\<close> for its enrollment: \<^verbatim>\<open>int\<close> raises \<^verbatim>\<open>ValueError\<close> inside
  \<^verbatim>\<open>applymap\<close>, the assignment does not happen, and no row is normalized, the
  well-formed one included.
\<close>

theorem bad_row_aborts_counterexample:
  "to_int (StrV ''1,234'') = Inr (IntV 1234) \<and> to_int (StrV ''1,200'') = Inr (IntV 1200)
   \<and> to_int (StrV ''n/a'') = Inl ValueError
   \<and> normalize04 example04_na = Inl ValueError"
proof -
  have "to_int (StrV ''1,200'') = Inr (IntV 1200)" "to_int (StrV ''n/a'') = Inl ValueError"
    by code_simp+
  with to_int_1234 normalize04_na show ?thesis
    by blast
qed

text \<open>
  C3, amended. If a row that passed the null filter has, in one of the two count columns,
  a string whose comma-free form does not parse as a base-10 integer, the coercion raises
  and the pipeline returns no table at all: the 04-05 and the 14-15 pipeline end with
  \<^verbatim>\<open>ValueError\<close> (or with \<^verbatim>\<open>AttributeError\<close>, when a cell that is not a string is met
  first). No row is excluded singly and nothing is logged.
\<close>

theorem coercion_failure_aborts:
  "((l, cs) \<in> set (rows (dropna (ix_columns columns_to_keep04 df))) \<and> (j = 2 \<or> j = 3)
      \<and> cell_at cs j = StrV s \<and> py_int (replace_comma s) = Inl ValueError
     \<longrightarrow> normalize04 df = Inl ValueError \<or> normalize04 df = Inl AttributeError)
   \<and> (ix_from 2 [0, 3, 8] df = Inr p \<and> (l, cs) \<in> set (rows (dropna p)) \<and> (j = 1 \<or> j = 2)
      \<and> cell_at cs j = StrV s \<and> py_int (replace_comma s) = Inl ValueError
     \<longrightarrow> normalize14 df = Inl ValueError \<or> normalize14 df = Inl AttributeError)"
proof (intro conjI impI; elim conjE)
  assume "(l, cs) \<in> set (rows (dropna (ix_columns columns_to_keep04 df)))" "j = 2 \<or> j = 3"
    "cell_at cs j = StrV s" "py_int (replace_comma s) = Inl ValueError"
  then show "normalize04 df = Inl ValueError \<or> normalize04 df = Inl AttributeError"
    by (intro normalize04_fails [of l cs df j ValueError] to_int_unparsed)
next
  assume "ix_from 2 [0, 3, 8] df = Inr p" "(l, cs) \<in> set (rows (dropna p))" "j = 1 \<or> j = 2"
    "cell_at cs j = StrV s" "py_int (replace_comma s) = Inl ValueError"
  then show "normalize14 df = Inl ValueError \<or> normalize14 df = Inl AttributeError"
    by (intro normalize14_fails [of df p l cs j ValueError] to_int_unparsed)
qed

theorem coercion_failure_aborts_witness:
  "(1, [StrV ''0100100200'', StrV ''2002'', StrV ''n/a'', StrV ''40''])
      \<in> set (rows (dropna (ix_columns columns_to_keep04 example04_na)))
   \<and> cell_at [StrV ''0100100200'', StrV ''2002'', StrV ''n/a'', StrV ''40''] 2 = StrV ''n/a''
   \<and> py_int (replace_comma ''n/a'') = Inl ValueError
   \<and> (normalize04 example04_na = Inl ValueError \<or> normalize04 example04_na = Inl AttributeError)
   \<and> ix_from 2 [0, 3, 8] example14_na
       = Inr \<lparr>columns = [''c0'', ''c3'', ''c8''],
              rows = [(2, [StrV ''010010010260001'', StrV ''1,000'', StrV ''900'']),
                      (3, [StrV ''010010010260002'', StrV ''250'', StrV ''n/a''])]\<rparr>
   \<and> (3, [StrV ''010010010260002'', StrV ''250'', StrV ''n/a''])
      \<in> set (rows (dropna \<lparr>columns = [''c0'', ''c3'', ''c8''],
              rows = [(2, [StrV ''010010010260001'', StrV ''1,000'', StrV ''900'']),
                      (3, [StrV ''010010010260002'', StrV ''250'', StrV ''n/a''])]\<rparr>))
   \<and> cell_at [StrV ''010010010260002'', StrV ''250'', StrV ''n/a''] 2 = StrV ''n/a''
   \<and> (normalize14 example14_na = Inl ValueError \<or> normalize14 example14_na = Inl AttributeError)"
proof -
  let ?r04 = "[StrV ''0100100200'', StrV ''2002'', StrV ''n/a'', StrV ''40'']"
  let ?r14 = "[StrV ''010010010260002'', StrV ''250'', StrV ''n/a'']"
  let ?p = "\<lparr>columns = [''c0'', ''c3'', ''c8''],
              rows = [(2, [StrV ''010010010260001'', StrV ''1,000'', StrV ''900'']),
                      (3, ?r14)]\<rparr>"
  have a: "(1, ?r04) \<in> set (rows (dropna (ix_columns columns_to_keep04 example04_na)))"
    by code_simp
  have b: "cell_at ?r04 2 = StrV ''n/a''"
    by (simp add: cell_at_def)
  have c: "py_int (replace_comma ''n/a'') = Inl ValueError"
    by code_simp
  have d: "ix_from 2 [0, 3, 8] example14_na = Inr ?p"
    by code_simp
  have e: "(3, ?r14) \<in> set (rows (dropna ?p))"
    by code_simp
  have f: "cell_at ?r14 2 = StrV ''n/a''"
    by (simp add: cell_at_def)
  have g: "normalize04 example04_na = Inl ValueError \<or> normalize04 example04_na = Inl AttributeError"
    using coercion_failure_aborts [of 1 ?r04 example04_na 2 "''n/a''" ?p] a b c by blast
  have h: "normalize14 example14_na = Inl ValueError \<or> normalize14 example14_na = Inl AttributeError"
    using coercion_failure_aborts [of 3 ?r14 example14_na 2 "''n/a''" ?p] d e f c by blast
  from a b c d e f g h show ?thesis
    by blast
qed

section \<open>Concatenation keeps every row\<close>

lemma key_of_to_float: "key_of (to_float c) = key_of c"
  by (cases c) simp_all

lemma field_ix_columns:
  "field (ix_columns ns a) n (map (\<lambda>m. field a m cs) ns)
     = (if n \<in> set ns then field a n cs else NaN)"
proof (cases "index_of ns n")
  case None
  moreover from None have "n \<notin> set ns"
    by (simp add: index_of_None)
  ultimately show ?thesis
    by (simp add: field_def [of "ix_columns ns a"] columns_ix_columns)
next
  case (Some j)
  then have "j < length ns" "ns ! j = n"
    by (auto dest: index_of_Some)
  then have "n \<in> set ns"
    by auto
  with \<open>j < length ns\<close> \<open>ns ! j = n\<close> show ?thesis
    using Some by (simp add: field_def [of "ix_columns ns a"] columns_ix_columns cell_at_def)
qed

lemma field_missing: "n \<notin> set (columns a) \<Longrightarrow> field a n cs = NaN"
  by (simp add: field_def index_of_None [THEN iffD2])

lemma keyed_column_ix_columns:
  assumes "set (columns a) \<subseteq> set ns"
  shows "keyed_column (ix_columns ns a) n = keyed_column a n"
proof -
  have "field (ix_columns ns a) n (map (\<lambda>m. field a m cs) ns) = field a n cs" for cs
  proof (cases "n \<in> set ns")
    case True
    then show ?thesis by (simp add: field_ix_columns)
  next
    case False
    with assms have "n \<notin> set (columns a)" by auto
    with False show ?thesis by (simp add: field_ix_columns field_missing)
  qed
  then show ?thesis
    by (simp add: keyed_column_def rows_ix_columns case_prod_unfold comp_def)
qed

lemma length_rows_ix_columns: "(l, cs) \<in> set (rows (ix_columns ns a)) \<Longrightarrow> length cs = length ns"
  by (auto simp: rows_ix_columns)

lemma columns_upcast: "columns (upcast_columns d) = columns d"
  by (simp add: upcast_columns_def Let_def)


lemma keyed_column_upcast:
  assumes "\<forall>(l, cs)\<in>set (rows d). length cs = length (columns d)"
  shows "keyed_column (upcast_columns d) n = keyed_column d n"
proof -
  let ?fl = "map (\<lambda>j. float_column (column_values d j)) [0..<length (columns d)]"
  let ?up = "\<lambda>cs. map (\<lambda>(f, c). if f then to_float c else c) (zip ?fl cs)"
  have "key_of (field (upcast_columns d) n (?up cs)) = key_of (field d n cs)"
    if "length cs = length (columns d)" for cs
  proof (cases "index_of (columns d) n")
    case None
    then show ?thesis by (simp add: field_def columns_upcast)
  next
    case (Some j)
    then have "j < length (columns d)" by (auto dest: index_of_Some)
    then show ?thesis
      using Some that by (simp add: field_def columns_upcast cell_at_def key_of_to_float)
  qed
  then have "\<forall>r\<in>set (rows d). key_of (field (upcast_columns d) n (?up (snd r)))
                               = key_of (field d n (snd r))"
    using assms by auto
  then show ?thesis
    by (simp add: keyed_column_def upcast_columns_def [of d] Let_def case_prod_unfold comp_def)
qed

lemma keyed_column_append:
  "keyed_column \<lparr>columns = c, rows = r1 @ r2\<rparr> n
     = keyed_column \<lparr>columns = c, rows = r1\<rparr> n @ keyed_column \<lparr>columns = c, rows = r2\<rparr> n"
  by (simp add: keyed_column_def field_def)

lemma ix_columns_eta: "\<lparr>columns = ns, rows = rows (ix_columns ns a)\<rparr> = ix_columns ns a"
  by (simp add: ix_columns_def)

lemma set_union_columns: "set (union_columns a b) = set a \<union> set b"
  by (auto simp: union_columns_def)



lemma keyed_column_pd_concat:
  "keyed_column (pd_concat a b) n = keyed_column a n @ keyed_column b n"
proof -
  let ?c = "union_columns (columns a) (columns b)"
  let ?d = "\<lparr>columns = ?c, rows = rows (ix_columns ?c a) @ rows (ix_columns ?c b)\<rparr>"
  have wf: "\<forall>(l, cs)\<in>set (rows ?d). length cs = length (columns ?d)"
    by (auto dest: length_rows_ix_columns)
  have "keyed_column (pd_concat a b) n = keyed_column ?d n"
    unfolding pd_concat_def Let_def by (rule keyed_column_upcast [OF wf])
  also have "\<dots> = keyed_column (ix_columns ?c a) n @ keyed_column (ix_columns ?c b) n"
    by (simp only: keyed_column_append ix_columns_eta)
  also have "\<dots> = keyed_column a n @ keyed_column b n"
    by (simp add: keyed_column_ix_columns set_union_columns)
  finally show ?thesis .
qed

lemma length_keyed_column: "length (keyed_column d n) = length (rows d)"
  by (simp add: keyed_column_def)

lemma id_year_pd_concat: "id_year (pd_concat a b) = id_year a @ id_year b"
  by (simp add: id_year_def keyed_column_pd_concat length_keyed_column)

section \<open>Duplicate pairs of identifier and year\<close>

text \<open>
  C6, as stated, fails. On the three example extracts the master table has two rows with
  the pair (\<^verbatim>\<open>01001001026\<close>, 2009): the 09-10 file lists two schools of one district, and
  cutting the school part off the identifier makes their identifiers equal. Nothing in the
  notebook removes duplicates.
\<close>

theorem duplicate_id_year_counterexample:
  "master example04 example09 example14
   = Inr \<lparr>columns = [''rcdt'', ''enrollment'', ''protected'', ''year''],
          rows = [(2, [StrV ''01001001026'', FloatV 1000, FloatV 900, IntV 2014]),
                  (0, [StrV ''01001001026'', FloatV 100, FloatV (181 / 2), IntV 2009]),
                  (2, [StrV ''01001001026'', FloatV 250, FloatV 240, IntV 2009]),
                  (1, [StrV ''0100100100'', FloatV 1234, FloatV 1200, IntV 2004]),
                  (2, [StrV ''0100100200'', FloatV 50, FloatV 40, IntV 2004])]\<rparr>
   \<and> \<not> distinct (id_year \<lparr>columns = [''rcdt'', ''enrollment'', ''protected'', ''year''],
          rows = [(2, [StrV ''01001001026'', FloatV 1000, FloatV 900, IntV 2014]),
                  (0, [StrV ''01001001026'', FloatV 100, FloatV (181 / 2), IntV 2009]),
                  (2, [StrV ''01001001026'', FloatV 250, FloatV 240, IntV 2009]),
                  (1, [StrV ''0100100100'', FloatV 1234, FloatV 1200, IntV 2004]),
                  (2, [StrV ''0100100200'', FloatV 50, FloatV 40, IntV 2004])]\<rparr>)"
proof -
  have "\<not> distinct (id_year \<lparr>columns = [''rcdt'', ''enrollment'', ''protected'', ''year''],
          rows = [(2, [StrV ''01001001026'', FloatV 1000, FloatV 900, IntV 2014]),
                  (0, [StrV ''01001001026'', FloatV 100, FloatV (181 / 2), IntV 2009]),
                  (2, [StrV ''01001001026'', FloatV 250, FloatV 240, IntV 2009]),
                  (1, [StrV ''0100100100'', FloatV 1234, FloatV 1200, IntV 2004]),
                  (2, [StrV ''0100100200'', FloatV 50, FloatV 40, IntV 2004])]\<rparr>)"
    by (simp add: id_year_def keyed_column_def field_def cell_at_def)
  with master_example show ?thesis
    by blast
qed

text \<open>
  C6, amended. Concatenation removes no row: the (identifier, year) pairs of the result are
  those of the first table followed by those of the second. So the result is free of
  duplicate pairs exactly when each input is and the two inputs share no pair.
\<close>

theorem concat_id_year:
  "id_year (pd_concat a b) = id_year a @ id_year b
   \<and> (distinct (id_year (pd_concat a b)) \<longleftrightarrow>
        distinct (id_year a) \<and> distinct (id_year b) \<and> set (id_year a) \<inter> set (id_year b) = {})"
  by (simp add: id_year_pd_concat)

theorem concat_id_year_witness:
  "distinct (id_year \<lparr>columns = [''rcdt'', ''enrollment'', ''protected'', ''year''],
          rows = [(2, [StrV ''01001001026'', IntV 1000, IntV 900, IntV 2014])]\<rparr>)
   \<and> distinct (id_year \<lparr>columns = [''rcdt'', ''enrollment'', ''protected'', ''year''],
          rows = [(1, [StrV ''0100100100'', IntV 1234, IntV 1200, IntV 2004]),
                  (2, [StrV ''0100100200'', IntV 50, IntV 40, IntV 2004])]\<rparr>)
   \<and> distinct (id_year (pd_concat
         \<lparr>columns = [''rcdt'', ''enrollment'', ''protected'', ''year''],
          rows = [(2, [StrV ''01001001026'', IntV 1000, IntV 900, IntV 2014])]\<rparr>
         \<lparr>columns = [''rcdt'', ''enrollment'', ''protected'', ''year''],
          rows = [(1, [StrV ''0100100100'', IntV 1234, IntV 1200, IntV 2004]),
                  (2, [StrV ''0100100200'', IntV 50, IntV 40, IntV 2004])]\<rparr>))"
  (is "distinct (id_year ?a) \<and> distinct (id_year ?b) \<and> _")
proof -
  have a: "id_year ?a = [(Some (KStr ''01001001026''), Some (KNum 2014))]"
    by (simp add: id_year_def keyed_column_def field_def cell_at_def)
  have b: "id_year ?b = [(Some (KStr ''0100100100''), Some (KNum 2004)),
                         (Some (KStr ''0100100200''), Some (KNum 2004))]"
    by (simp add: id_year_def keyed_column_def field_def cell_at_def)
  have "distinct (id_year ?a)" "distinct (id_year ?b)" "set (id_year ?a) \<inter> set (id_year ?b) = {}"
    unfolding a b by simp_all
  then show ?thesis
    using concat_id_year [of ?a ?b] by blast
qed

section \<open>Concatenation of tables with different columns\<close>




section \<open>Sums and ratio by year\<close>

lemma map_enumerate: "map (\<lambda>(l, x). g x) (enumerate n xs) = map g xs"
  by (induction xs arbitrary: n) simp_all















text \<open>
  The analysis on the master table of the examples. Its counts are floats, since the 09-10 counts are:
  concatenation has turned the integers of the other two extracts into floats.
\<close>

lemma aggregate_master_example:
  "aggregate_by_year \<lparr>columns = [''rcdt'', ''enrollment'', ''protected'', ''year''],
          rows = [(2, [StrV ''01001001026'', FloatV 1000, FloatV 900, IntV 2014]),
                  (0, [StrV ''01001001026'', FloatV 100, FloatV (181 / 2), IntV 2009]),
                  (2, [StrV ''01001001026'', FloatV 250, FloatV 240, IntV 2009]),
                  (1, [StrV ''0100100100'', FloatV 1234, FloatV 1200, IntV 2004]),
                  (2, [StrV ''0100100200'', FloatV 50, FloatV 40, IntV 2004])]\<rparr>
   = Inr [(KNum 2004, FloatV 1284, FloatV 1240, FloatV (1240 / 1284)),
          (KNum 2009, FloatV 350, FloatV (661 / 2), FloatV (661 / 700)),
          (KNum 2014, FloatV 1000, FloatV 900, FloatV (900 / 1000))]"
  by code_simp






end
